theory Spec2Isabelle
  imports Main
begin

section \<open>Scheduled database backups to object storage: the backup cycle of index.js\<close>

text \<open>
  The program is one sequential orchestration: \<open>processBackup\<close> walks the configured
  connection strings, runs a dump command and \<open>tar\<close> for each, reads the archive, uploads
  it and reports to Telegram through \<open>notifyTelegram\<close>.  Everything it does is a call to
  the platform (\<open>console.log\<close>, \<open>fetch\<close>, \<open>exec\<close>, \<open>fs.readFileSync\<close>,
  \<open>s3Client.send\<close>), so the embedding threads a call log through the functions and takes
  the platform's answers from a \<open>runtime\<close> record.
\<close>

subsection \<open>String helpers of the language\<close>

text \<open>\<open>String(n)\<close> for a non-negative integer: its decimal digits.\<close>

definition digit :: "nat \<Rightarrow> char" where
  "digit d = ''0123456789'' ! (d mod 10)"

fun String_nat :: "nat \<Rightarrow> string" where
  "String_nat n = (if n < 10 then [digit n] else String_nat (n div 10) @ [digit (n mod 10)])"

declare String_nat.simps [simp del]

definition String_int :: "int \<Rightarrow> string" where
  "String_int i = (if i < 0 then ''-'' @ String_nat (nat (- i)) else String_nat (nat i))"

text \<open>\<open>s.padStart(n, c)\<close> with a one-character filler.\<close>

definition padStart :: "nat \<Rightarrow> char \<Rightarrow> string \<Rightarrow> string" where
  "padStart n c s = replicate (n - length s) c @ s"

text \<open>
  \<open>s.slice(start, end)\<close>: a negative index counts from the end, both are clamped to the
  string.  \<open>s.substring(start)\<close> with a non-negative start drops that many characters.
\<close>

definition slice :: "int \<Rightarrow> int \<Rightarrow> string \<Rightarrow> string" where
  "slice start end s =
     (let len = int (length s);
          from = (if start < 0 then max (len + start) 0 else min start len);
          to = (if end < 0 then max (len + end) 0 else min end len)
      in take (nat (to - from)) (drop (nat from) s))"

definition substring :: "nat \<Rightarrow> string \<Rightarrow> string" where
  "substring start s = drop (min start (length s)) s"

text \<open>\<open>s.split(",")\<close>: the pieces between the separators, at least one piece.\<close>

fun split :: "char \<Rightarrow> string \<Rightarrow> string list" where
  "split c [] = [[]]"
| "split c (x # xs) =
     (if x = c then [] # split c xs
      else (case split c xs of [] \<Rightarrow> [[x]] | p # ps \<Rightarrow> (x # p) # ps))"

text \<open>The double quote, the line feed, and the two marks of the outcome messages (UTF-8).\<close>

definition dq :: string where
  "dq = [CHR 0x22]"

definition lf :: string where
  "lf = [CHR 0x0A]"

definition check_mark :: string where
  "check_mark = [CHR 0xE2, CHR 0x9C, CHR 0x93]"

definition ballot_x :: string where
  "ballot_x = [CHR 0xE2, CHR 0x9C, CHR 0x97]"

subsection \<open>Configuration\<close>

record aws_config =
  accessKeyId :: string
  secretAccessKey :: string
  region :: string
  endpoint :: string
  s3_bucket :: string

record telegram_config =
  isEnabled :: bool
  token :: "string option"
  chatIds :: "string list"

record config =
  aws :: aws_config
  databases :: "string list"
  run_on_startup :: bool
  telegram :: telegram_config
  cron :: "string option"

text \<open>
  \<open>process.env\<close> is a map from names to strings.  A value is falsy when the variable is
  unset or empty.
\<close>

definition truthy :: "string option \<Rightarrow> bool" where
  "truthy v = (case v of None \<Rightarrow> False | Some s \<Rightarrow> s \<noteq> [])"

definition requiredEnvars :: "string list" where
  "requiredEnvars = [''AWS_ACCESS_KEY_ID'', ''AWS_SECRET_ACCESS_KEY'', ''AWS_S3_REGION'',
     ''AWS_S3_ENDPOINT'', ''AWS_S3_BUCKET'']"

definition loadConfig :: "(string \<rightharpoonup> string) \<Rightarrow> string + config" where
  "loadConfig env =
     (case filter (\<lambda>key. \<not> truthy (env key)) requiredEnvars of
        key # _ \<Rightarrow> Inl (''Environment variable '' @ key @ '' is required'')
      | [] \<Rightarrow> Inr \<lparr>
          aws = \<lparr> accessKeyId = the (env ''AWS_ACCESS_KEY_ID''),
                  secretAccessKey = the (env ''AWS_SECRET_ACCESS_KEY''),
                  region = the (env ''AWS_S3_REGION''),
                  endpoint = the (env ''AWS_S3_ENDPOINT''),
                  s3_bucket = the (env ''AWS_S3_BUCKET'') \<rparr>,
          databases = (if truthy (env ''DATABASES'') then split CHR '','' (the (env ''DATABASES'')) else []),
          run_on_startup = (env ''RUN_ON_STARTUP'' = Some ''true''),
          telegram = \<lparr> isEnabled = truthy (env ''TELEGRAM_TOKEN''),
                       token = env ''TELEGRAM_TOKEN'',
                       chatIds = (if truthy (env ''TELEGRAM_CHAT_IDS'')
                                  then split CHR '','' (the (env ''TELEGRAM_CHAT_IDS'')) else []) \<rparr>,
          cron = env ''CRON'' \<rparr>)"

subsection \<open>The platform\<close>

text \<open>
  The call log.  Each constructor is one call the program makes; \<open>Notify\<close> marks an
  invocation of \<open>notifyTelegram\<close> itself, \<open>S3Put\<close> carries bucket, key and body.
\<close>

datatype event =
    Log string
  | LogError string
  | Notify string
  | Fetch string
  | Exec string
  | ReadFile string
  | S3Put string string string

text \<open>
  What a call does: return a value, throw (a rejected promise for an awaited call), or
  never settle; no call has a timeout, so a call that never settles stalls the caller for
  good.  The thrown value is kept as its text, the text a template literal gives it.
\<close>

datatype 'a outcome = Returns 'a | Throws string | Hangs

text \<open>The fields of a \<open>URL\<close> object that the program reads.\<close>

record url =
  protocol :: string
  username :: string
  password :: string
  hostname :: string
  port :: string
  pathname :: string

text \<open>The local-time getters of a \<open>Date\<close> object.\<close>

record date =
  getFullYear :: int
  getMonth :: nat
  getDate :: nat
  getHours :: nat
  getMinutes :: nat
  getSeconds :: nat

text \<open>
  The platform's answers.  \<open>new URL(s)\<close> is a function of the string alone and throws
  on an unparseable one; the clock and the four effectful calls see the call log so far,
  so that the same command may succeed once and fail later.
\<close>

record runtime =
  new_URL :: "string \<Rightarrow> string + url"
  new_Date :: "event list \<Rightarrow> date"
  exec :: "event list \<Rightarrow> string \<Rightarrow> unit outcome"
  readFileSync :: "event list \<Rightarrow> string \<Rightarrow> string outcome"
  s3_send :: "event list \<Rightarrow> string \<Rightarrow> string \<Rightarrow> string \<Rightarrow> unit outcome"
  fetch :: "event list \<Rightarrow> string \<Rightarrow> unit outcome"

subsection \<open>notifyTelegram\<close>

definition telegram_url :: "config \<Rightarrow> string \<Rightarrow> string \<Rightarrow> string" where
  "telegram_url cfg chatId m =
     ''https://api.telegram.org/bot''
       @ (case token (telegram cfg) of None \<Rightarrow> ''undefined'' | Some t \<Rightarrow> t)
       @ ''/sendMessage?chat_id='' @ chatId @ ''&text='' @ m"

text \<open>The \<open>for (const chatId of chatIds)\<close> loop: an awaited \<open>fetch\<close> per destination.\<close>

fun send_all :: "config \<Rightarrow> runtime \<Rightarrow> string \<Rightarrow> string list \<Rightarrow> event list \<Rightarrow> unit outcome \<times> event list" where
  "send_all cfg rt m [] tr = (Returns (), tr)"
| "send_all cfg rt m (chatId # rest) tr =
     (let u = telegram_url cfg chatId m in
      case fetch rt tr u of
        Returns _ \<Rightarrow> send_all cfg rt m rest (tr @ [Fetch u])
      | Throws e \<Rightarrow> (Throws e, tr @ [Fetch u])
      | Hangs \<Rightarrow> (Hangs, tr @ [Fetch u]))"

text \<open>The message as sent: prefixed with the product tag.\<close>

definition newMessage :: "string \<Rightarrow> string" where
  "newMessage message = ''[eGesto Backup Database] '' @ message"

text \<open>The body of the \<open>try\<close> block of \<open>notifyTelegram\<close>.\<close>

definition notify_try :: "config \<Rightarrow> runtime \<Rightarrow> string \<Rightarrow> event list \<Rightarrow> unit outcome \<times> event list" where
  "notify_try cfg rt message tr =
     (if \<not> isEnabled (telegram cfg) then
        (Returns (), tr @ [Log ''Telegram notifications are disabled. Define TELEGRAM_TOKEN and TELEGRAM_CHAT_IDS to enable.''])
      else if chatIds (telegram cfg) = [] then
        (Returns (), tr @ [Log ''No chat IDs defined for Telegram notifications. Define TELEGRAM_CHAT_IDS to enable.''])
      else
        send_all cfg rt (newMessage message) (chatIds (telegram cfg)) tr)"

text \<open>
  The whole function: the \<open>catch\<close> turns whatever the body throws into one
  \<open>console.error\<close> call, whose two arguments (the fixed text and the error) the log
  keeps as one line.
\<close>

definition notifyTelegram :: "config \<Rightarrow> runtime \<Rightarrow> string \<Rightarrow> event list \<Rightarrow> unit outcome \<times> event list" where
  "notifyTelegram cfg rt message tr =
     (case notify_try cfg rt message (tr @ [Notify message]) of
        (Throws e, tr') \<Rightarrow>
          (Returns (), tr' @ [LogError (''An error occurred while sending Telegram notification. '' @ e)])
      | (Returns u, tr') \<Rightarrow> (Returns u, tr')
      | (Hangs, tr') \<Rightarrow> (Hangs, tr'))"

subsection \<open>processBackup\<close>

text \<open>Lines 58 to 64: what is read off the parsed URL.\<close>

definition dbType :: "url \<Rightarrow> string" where
  "dbType u = slice 0 (- 1) (protocol u)"

definition dbName :: "url \<Rightarrow> string" where
  "dbName u = substring 1 (pathname u)"

definition dbHostname :: "url \<Rightarrow> string" where
  "dbHostname u = hostname u"

definition dbUser :: "url \<Rightarrow> string" where
  "dbUser u = username u"

definition dbPassword :: "url \<Rightarrow> string" where
  "dbPassword u = password u"

definition dbPort :: "url \<Rightarrow> string" where
  "dbPort u = port u"

text \<open>Lines 66 to 75: the timestamp and the artifact's name.\<close>

definition timestamp :: "date \<Rightarrow> string" where
  "timestamp d =
     (let yyyy = String_int (getFullYear d);
          mm = padStart 2 CHR ''0'' (String_nat (getMonth d + 1));
          dd = padStart 2 CHR ''0'' (String_nat (getDate d));
          hh = padStart 2 CHR ''0'' (String_nat (getHours d));
          min = padStart 2 CHR ''0'' (String_nat (getMinutes d));
          ss = padStart 2 CHR ''0'' (String_nat (getSeconds d))
      in yyyy @ ''-'' @ mm @ ''-'' @ dd @ ''_'' @ hh @ '':'' @ min @ '':'' @ ss)"

definition filename :: "string \<Rightarrow> string \<Rightarrow> string \<Rightarrow> string \<Rightarrow> string" where
  "filename ty ts name host =
     ''backup-'' @ ty @ ''-'' @ ts @ ''-'' @ name @ ''-'' @ host @ ''.tar.gz''"

definition filepath :: "string \<Rightarrow> string" where
  "filepath fname = ''/tmp/'' @ fname"

definition startBackupMessage :: "nat \<Rightarrow> nat \<Rightarrow> url \<Rightarrow> string" where
  "startBackupMessage databaseIteration totalDatabases u =
     lf @ ''['' @ String_nat databaseIteration @ ''/'' @ String_nat totalDatabases @ ''] ''
       @ dbType u @ ''/'' @ dbName u @ '' Backup in progress...''"

text \<open>The \<open>switch\<close> on the engine; \<open>None\<close> is its \<open>default\<close> branch.\<close>

definition dumpCommand :: "string \<Rightarrow> url \<Rightarrow> string \<Rightarrow> string option" where
  "dumpCommand databaseURI u fpath =
     (if dbType u = ''postgresql'' then
        Some (''pg_dump '' @ dq @ databaseURI @ dq @ '' -F c > '' @ dq @ fpath @ ''.dump'' @ dq)
      else if dbType u = ''mongodb'' then
        Some (''mongodump --uri='' @ dq @ databaseURI @ dq @ '' --archive='' @ dq @ fpath @ ''.dump'' @ dq)
      else if dbType u = ''mysql'' then
        Some (''mysqldump -u '' @ dbUser u @ '' -p'' @ dbPassword u @ '' -h '' @ dbHostname u
              @ '' -P '' @ dbPort u @ '' '' @ dbName u @ '' > '' @ dq @ fpath @ ''.dump'' @ dq)
      else None)"

definition tarCommand :: "string \<Rightarrow> string" where
  "tarCommand fpath = ''tar -czvf '' @ fpath @ '' '' @ fpath @ ''.dump''"

definition successMessage :: "url \<Rightarrow> string" where
  "successMessage u =
     check_mark @ '' Successfully uploaded db backup for database '' @ dbType u @ '' ''
       @ dbName u @ '' '' @ dbHostname u @ ''.''"

definition failurePrefix :: "url \<Rightarrow> string" where
  "failurePrefix u =
     ballot_x @ '' An error occurred while processing the database '' @ dbType u @ '' ''
       @ dbName u @ '', host: '' @ dbHostname u @ ''): ''"

definition failureMessage :: "url \<Rightarrow> string \<Rightarrow> string" where
  "failureMessage u error = failurePrefix u @ error"

text \<open>
  Steps 1 to 4 of the \<open>try\<close> block: dump, compress, read, upload.  The first call that
  throws or hangs ends them.
\<close>

definition backup_steps :: "config \<Rightarrow> runtime \<Rightarrow> string \<Rightarrow> string \<Rightarrow> string \<Rightarrow> event list \<Rightarrow> unit outcome \<times> event list" where
  "backup_steps cfg rt cmd fname fpath tr =
     (let tr1 = tr @ [Exec cmd] in
      case exec rt tr cmd of
        Throws e \<Rightarrow> (Throws e, tr1)
      | Hangs \<Rightarrow> (Hangs, tr1)
      | Returns _ \<Rightarrow>
     (let tr2 = tr1 @ [Exec (tarCommand fpath)] in
      case exec rt tr1 (tarCommand fpath) of
        Throws e \<Rightarrow> (Throws e, tr2)
      | Hangs \<Rightarrow> (Hangs, tr2)
      | Returns _ \<Rightarrow>
     (let tr3 = tr2 @ [ReadFile fpath] in
      case readFileSync rt tr2 fpath of
        Throws e \<Rightarrow> (Throws e, tr3)
      | Hangs \<Rightarrow> (Hangs, tr3)
      | Returns data \<Rightarrow>
     (let tr4 = tr3 @ [S3Put (s3_bucket (aws cfg)) fname data] in
      case s3_send rt tr3 (s3_bucket (aws cfg)) fname data of
        Throws e \<Rightarrow> (Throws e, tr4)
      | Hangs \<Rightarrow> (Hangs, tr4)
      | Returns _ \<Rightarrow> (Returns (), tr4)))))"

text \<open>The whole \<open>try\<close> block: the four steps, then the success notification and log.\<close>

definition try_block :: "config \<Rightarrow> runtime \<Rightarrow> url \<Rightarrow> string \<Rightarrow> string \<Rightarrow> string \<Rightarrow> event list \<Rightarrow> unit outcome \<times> event list" where
  "try_block cfg rt u cmd fname fpath tr =
     (case backup_steps cfg rt cmd fname fpath tr of
        (Throws e, tr') \<Rightarrow> (Throws e, tr')
      | (Hangs, tr') \<Rightarrow> (Hangs, tr')
      | (Returns _, tr') \<Rightarrow>
          (case notifyTelegram cfg rt (successMessage u) tr' of
             (Throws e, tr'') \<Rightarrow> (Throws e, tr'')
           | (Hangs, tr'') \<Rightarrow> (Hangs, tr'')
           | (Returns _, tr'') \<Rightarrow> (Returns (), tr'' @ [Log (successMessage u)])))"

text \<open>The \<open>catch\<close> block.\<close>

definition catch_block :: "config \<Rightarrow> runtime \<Rightarrow> url \<Rightarrow> string \<Rightarrow> event list \<Rightarrow> unit outcome \<times> event list" where
  "catch_block cfg rt u error tr =
     (case notifyTelegram cfg rt (failureMessage u error) tr of
        (Throws e, tr') \<Rightarrow> (Throws e, tr')
      | (Hangs, tr') \<Rightarrow> (Hangs, tr')
      | (Returns _, tr') \<Rightarrow> (Returns (), tr' @ [LogError (failureMessage u error)]))"

text \<open>
  One pass of the loop body.  It ends by going on to the next entry (\<open>Continue\<close>) or by
  the \<open>return\<close> of the \<open>default\<close> branch (\<open>Return\<close>); an exception outside the
  \<open>try\<close> leaves the function.
\<close>

datatype loop_exit = Continue | Return

definition processTarget :: "config \<Rightarrow> runtime \<Rightarrow> nat \<Rightarrow> nat \<Rightarrow> string \<Rightarrow> event list \<Rightarrow> loop_exit outcome \<times> event list" where
  "processTarget cfg rt totalDatabases index databaseURI tr =
     (let databaseIteration = index + 1 in
      case new_URL rt databaseURI of
        Inl e \<Rightarrow> (Throws e, tr)
      | Inr u \<Rightarrow>
     (let fname = filename (dbType u) (timestamp (new_Date rt tr)) (dbName u) (dbHostname u);
          fpath = filepath fname;
          startMessage = startBackupMessage databaseIteration totalDatabases u in
      case notifyTelegram cfg rt startMessage tr of
        (Throws e, tr1) \<Rightarrow> (Throws e, tr1)
      | (Hangs, tr1) \<Rightarrow> (Hangs, tr1)
      | (Returns _, tr1) \<Rightarrow>
     (let tr2 = tr1 @ [Log startMessage] in
      case dumpCommand databaseURI u fpath of
        None \<Rightarrow> (Returns Return, tr2 @ [Log (''Unknown database type: '' @ dbType u)])
      | Some cmd \<Rightarrow>
          (case try_block cfg rt u cmd fname fpath tr2 of
             (Returns _, tr3) \<Rightarrow> (Returns Continue, tr3)
           | (Hangs, tr3) \<Rightarrow> (Hangs, tr3)
           | (Throws error, tr3) \<Rightarrow>
               (case catch_block cfg rt u error tr3 of
                  (Returns _, tr4) \<Rightarrow> (Returns Continue, tr4)
                | (Hangs, tr4) \<Rightarrow> (Hangs, tr4)
                | (Throws e, tr4) \<Rightarrow> (Throws e, tr4))))))"

text \<open>The \<open>for\<close> loop over \<open>config.databases.entries()\<close>, from a given index on.\<close>

fun processTargets :: "config \<Rightarrow> runtime \<Rightarrow> nat \<Rightarrow> nat \<Rightarrow> string list \<Rightarrow> event list \<Rightarrow> loop_exit outcome \<times> event list" where
  "processTargets cfg rt totalDatabases index [] tr = (Returns Continue, tr)"
| "processTargets cfg rt totalDatabases index (databaseURI # rest) tr =
     (case processTarget cfg rt totalDatabases index databaseURI tr of
        (Returns Continue, tr') \<Rightarrow> processTargets cfg rt totalDatabases (index + 1) rest tr'
      | (Returns Return, tr') \<Rightarrow> (Returns Return, tr')
      | (Throws e, tr') \<Rightarrow> (Throws e, tr')
      | (Hangs, tr') \<Rightarrow> (Hangs, tr'))"

text \<open>
  The function the scheduler calls.  Its promise resolves (\<open>Returns\<close>) both when the
  loop runs to its end and on the early \<open>return\<close>; it rejects when an exception
  escapes.
\<close>

definition processBackup :: "config \<Rightarrow> runtime \<Rightarrow> event list \<Rightarrow> unit outcome \<times> event list" where
  "processBackup cfg rt tr =
     (if length (databases cfg) = 0 then (Returns (), tr @ [Log ''No databases defined.''])
      else
        (case processTargets cfg rt (length (databases cfg)) 0 (databases cfg) tr of
           (Returns _, tr') \<Rightarrow> (Returns (), tr')
         | (Throws e, tr') \<Rightarrow> (Throws e, tr')
         | (Hangs, tr') \<Rightarrow> (Hangs, tr')))"

subsection \<open>Vocabulary of the statements\<close>

text \<open>
  The name of the artifact of one loop pass: the clock is read at the call log the pass
  starts with.
\<close>

definition target_filename :: "runtime \<Rightarrow> event list \<Rightarrow> url \<Rightarrow> string" where
  "target_filename rt tr u = filename (dbType u) (timestamp (new_Date rt tr)) (dbName u) (dbHostname u)"

text \<open>Classes of calls: the backup work proper, and a send to Telegram.\<close>

definition is_work :: "event \<Rightarrow> bool" where
  "is_work ev = (case ev of Exec _ \<Rightarrow> True | ReadFile _ \<Rightarrow> True | S3Put _ _ _ \<Rightarrow> True | _ \<Rightarrow> False)"

definition is_send :: "event \<Rightarrow> bool" where
  "is_send ev = (case ev of Fetch _ \<Rightarrow> True | _ \<Rightarrow> False)"

text \<open>The sends of one notification, one per destination, in the order of the list.\<close>

definition fetches :: "config \<Rightarrow> string \<Rightarrow> string list \<Rightarrow> event list" where
  "fetches cfg m ids = map (\<lambda>chatId. Fetch (telegram_url cfg chatId m)) ids"

definition starts_with :: "string \<Rightarrow> string \<Rightarrow> bool" where
  "starts_with p s = (take (length p) s = p)"

text \<open>What \<open>notifyTelegram\<close> itself may put on the log after its call mark.\<close>

definition notifier_internal :: "event \<Rightarrow> bool" where
  "notifier_internal ev =
     (case ev of
        Fetch _ \<Rightarrow> True
      | Log s \<Rightarrow> s = ''Telegram notifications are disabled. Define TELEGRAM_TOKEN and TELEGRAM_CHAT_IDS to enable.''
                 \<or> s = ''No chat IDs defined for Telegram notifications. Define TELEGRAM_CHAT_IDS to enable.''
      | LogError s \<Rightarrow> starts_with ''An error occurred while sending Telegram notification. '' s
      | _ \<Rightarrow> False)"

text \<open>
  The outcome messages of a target: the success text, and any text that starts with the
  failure text (the error is appended to it).
\<close>

definition is_success_event :: "url \<Rightarrow> event \<Rightarrow> bool" where
  "is_success_event u ev = (ev = Notify (successMessage u) \<or> ev = Log (successMessage u))"

definition is_failure_event :: "url \<Rightarrow> event \<Rightarrow> bool" where
  "is_failure_event u ev =
     (case ev of
        Notify s \<Rightarrow> starts_with (failurePrefix u) s
      | LogError s \<Rightarrow> starts_with (failurePrefix u) s
      | _ \<Rightarrow> False)"

text \<open>Every awaited call and the file read come back: they return or throw.\<close>

definition settles :: "runtime \<Rightarrow> bool" where
  "settles rt \<longleftrightarrow>
     (\<forall>tr cmd. exec rt tr cmd \<noteq> Hangs) \<and> (\<forall>tr path. readFileSync rt tr path \<noteq> Hangs)
     \<and> (\<forall>tr bucket key body. s3_send rt tr bucket key body \<noteq> Hangs) \<and> (\<forall>tr x. fetch rt tr x \<noteq> Hangs)"

text \<open>
  The decomposition of a connection string in the words of the specification.  The
  platform's parser does the decomposition; of its \<open>protocol\<close> the scheme is what
  stands before the trailing colon, of its \<open>pathname\<close> the database name is what
  follows a leading slash.
\<close>

definition uri_scheme :: "url \<Rightarrow> string" where
  "uri_scheme u =
     (if protocol u \<noteq> [] \<and> last (protocol u) = CHR '':'' then butlast (protocol u) else protocol u)"

definition uri_path_without_leading_slash :: "url \<Rightarrow> string" where
  "uri_path_without_leading_slash u =
     (case pathname u of [] \<Rightarrow> [] | c # r \<Rightarrow> if c = CHR ''/'' then r else c # r)"

definition uri_decomposition :: "url \<Rightarrow> string \<times> string \<times> string \<times> string \<times> string \<times> string" where
  "uri_decomposition u =
     (uri_scheme u, uri_path_without_leading_slash u, hostname u, port u, username u, password u)"

text \<open>What lines 58 to 64 extract, in the same order.\<close>

definition extracted :: "url \<Rightarrow> string \<times> string \<times> string \<times> string \<times> string \<times> string" where
  "extracted u = (dbType u, dbName u, dbHostname u, dbPort u, dbUser u, dbPassword u)"

definition supported_scheme :: "url \<Rightarrow> bool" where
  "supported_scheme u \<longleftrightarrow>
     protocol u = ''postgresql:'' \<or> protocol u = ''mongodb:'' \<or> protocol u = ''mysql:''"

subsection \<open>Example platforms and configurations\<close>

text \<open>
  The \<open>URL\<close> objects of four strings: two hierarchical connection strings, an
  \<open>ftp\<close> address, and \<open>mysql:foo\<close>, which the parser accepts with an opaque path
  (no authority, no leading slash).
\<close>

definition pg_url :: url where
  "pg_url = \<lparr>protocol = ''postgresql:'', username = ''u'', password = ''p'', hostname = ''h'',
     port = ''5432'', pathname = ''/db''\<rparr>"

definition mysql_url :: url where
  "mysql_url = \<lparr>protocol = ''mysql:'', username = ''root'', password = ''pw'', hostname = ''m'',
     port = ''3306'', pathname = ''/shop''\<rparr>"

definition ftp_url :: url where
  "ftp_url = \<lparr>protocol = ''ftp:'', username = [], password = [], hostname = ''h'', port = [],
     pathname = ''/db''\<rparr>"

definition opaque_url :: url where
  "opaque_url = \<lparr>protocol = ''mysql:'', username = [], password = [], hostname = [], port = [],
     pathname = ''foo''\<rparr>"

definition example_new_URL :: "string \<Rightarrow> string + url" where
  "example_new_URL s =
     (if s = ''postgresql://u:p@h:5432/db'' then Inr pg_url
      else if s = ''mysql://root:pw@m:3306/shop'' then Inr mysql_url
      else if s = ''ftp://h/db'' then Inr ftp_url
      else if s = ''mysql:foo'' then Inr opaque_url
      else Inl ''TypeError: Invalid URL'')"

definition example_date :: date where
  "example_date = \<lparr>getFullYear = 2026, getMonth = 10, getDate = 3, getHours = 13,
     getMinutes = 4, getSeconds = 5\<rparr>"

text \<open>
  A platform on which every call succeeds, one without network, and one whose
  \<open>pg_dump\<close> fails.
\<close>

definition calm_runtime :: runtime where
  "calm_runtime = \<lparr>new_URL = example_new_URL, new_Date = (\<lambda>tr. example_date),
     exec = (\<lambda>tr cmd. Returns ()), readFileSync = (\<lambda>tr path. Returns ''archive''),
     s3_send = (\<lambda>tr bucket key body. Returns ()), fetch = (\<lambda>tr x. Returns ())\<rparr>"

definition offline_runtime :: runtime where
  "offline_runtime = calm_runtime\<lparr>fetch := (\<lambda>tr x. Throws ''TypeError: fetch failed'')\<rparr>"

definition failing_dump_runtime :: runtime where
  "failing_dump_runtime =
     calm_runtime\<lparr>exec := (\<lambda>tr cmd. if starts_with ''pg_dump'' cmd then Throws ''Error: Command failed'' else Returns ())\<rparr>"

text \<open>A configuration without Telegram, and one with a token and two destinations.\<close>

definition silent_config :: config where
  "silent_config = \<lparr>
     aws = \<lparr>accessKeyId = ''id'', secretAccessKey = ''secret'', region = ''eu'', endpoint = ''https://s3'',
            s3_bucket = ''bucket''\<rparr>,
     databases = [], run_on_startup = True,
     telegram = \<lparr>isEnabled = False, token = None, chatIds = []\<rparr>,
     cron = None\<rparr>"

definition chatty_config :: config where
  "chatty_config = silent_config\<lparr>telegram := \<lparr>isEnabled = True, token = Some ''T'', chatIds = [''1'', ''2'']\<rparr>\<rparr>"

section \<open>Properties\<close>

subsection \<open>Strings\<close>

lemma slice_0_neg1: "slice 0 (- 1) s = butlast s"
proof -
  have "nat (max (int (length s) - 1) 0) = length s - 1" by arith
  then show ?thesis by (simp add: slice_def Let_def butlast_conv_take)
qed

lemma substring_1: "substring 1 s = drop 1 s"
  by (cases s) (simp_all add: substring_def)

lemma starts_with_Cons: "starts_with (a # p) (b # s) \<longleftrightarrow> a = b \<and> starts_with p s"
  by (auto simp: starts_with_def)

lemma starts_with_append: "starts_with p (p @ s)"
  by (simp add: starts_with_def)

lemma starts_with_head: "starts_with (a # p) s \<Longrightarrow> \<exists>r. s = a # r"
  by (cases s) (auto simp: starts_with_def)

lemma digit_mod: "digit (n mod 10) = digit n"
  by (simp add: digit_def)

lemma digit_0: "digit 0 = CHR ''0''"
  by (simp add: digit_def)

lemma String_nat_small: "n < 10 \<Longrightarrow> String_nat n = [digit n]"
  by (subst String_nat.simps) simp

lemma String_nat_step: "10 \<le> n \<Longrightarrow> String_nat n = String_nat (n div 10) @ [digit n]"
  by (subst String_nat.simps) (simp add: digit_mod)

lemma String_nat_2: "10 \<le> n \<Longrightarrow> n < 100 \<Longrightarrow> String_nat n = [digit (n div 10), digit n]"
  by (simp add: String_nat_step String_nat_small)

lemma String_nat_4:
  assumes "1000 \<le> n" "n < 10000"
  shows "String_nat n = [digit (n div 1000), digit (n div 100), digit (n div 10), digit n]"
proof -
  have a: "String_nat n = String_nat (n div 10) @ [digit n]"
    using assms by (intro String_nat_step) simp
  have d1: "n div 10 div 10 = n div 100" and d2: "n div 100 div 10 = n div 1000"
    by (simp_all add: div_mult2_eq [symmetric])
  have b0: "10 \<le> n div 10"
    using assms by simp
  have b: "String_nat (n div 10) = String_nat (n div 100) @ [digit (n div 10)]"
    using String_nat_step [OF b0] by (simp only: d1)
  have c0: "10 \<le> n div 100" "n div 100 < 100"
    using assms by simp_all
  have c: "String_nat (n div 100) = [digit (n div 1000), digit (n div 100)]"
    using String_nat_2 [OF c0] by (simp only: d2)
  show ?thesis by (simp only: a b c append.simps)
qed

lemma pad2: "n < 100 \<Longrightarrow> padStart 2 CHR ''0'' (String_nat n) = [digit (n div 10), digit n]"
proof (cases "n < 10")
  case True
  then show ?thesis by (simp add: padStart_def String_nat_small digit_0)
next
  case False
  assume "n < 100"
  with False show ?thesis by (simp add: padStart_def String_nat_2)
qed

lemma timestamp_example: "timestamp example_date = ''2026-11-03_13:04:05''"
  by (simp add: timestamp_def example_date_def String_int_def padStart_def String_nat.simps digit_def)

lemma filter_none: "(\<forall>ev\<in>set evs. \<not> P ev) \<Longrightarrow> filter P evs = []"
  by (induction evs) simp_all

subsection \<open>Configuration\<close>

lemma loadConfig_telegram:
  "loadConfig env = Inr cfg \<Longrightarrow>
     isEnabled (telegram cfg) = truthy (env ''TELEGRAM_TOKEN'') \<and> token (telegram cfg) = env ''TELEGRAM_TOKEN''"
  by (auto simp: loadConfig_def split: list.splits)

lemma loadConfig_databases:
  "loadConfig env = Inr cfg \<Longrightarrow> \<not> truthy (env ''DATABASES'') \<Longrightarrow> databases cfg = []"
  by (auto simp: loadConfig_def split: list.splits)

subsection \<open>The call log of the notifier\<close>

lemma send_all_shape:
  "send_all cfg rt m ids tr = (r, tr') \<Longrightarrow> \<exists>evs. tr' = tr @ evs \<and> (\<forall>ev\<in>set evs. \<exists>x. ev = Fetch x)"
proof (induction ids arbitrary: tr)
  case Nil
  then show ?case by simp
next
  case (Cons c ids)
  show ?case
  proof (cases "fetch rt tr (telegram_url cfg c m)")
    case (Returns x)
    with Cons.prems have "send_all cfg rt m ids (tr @ [Fetch (telegram_url cfg c m)]) = (r, tr')"
      by simp
    from Cons.IH [OF this] obtain evs where
      "tr' = (tr @ [Fetch (telegram_url cfg c m)]) @ evs" "\<forall>ev\<in>set evs. \<exists>x. ev = Fetch x"
      by blast
    then have "tr' = tr @ (Fetch (telegram_url cfg c m) # evs) \<and>
        (\<forall>ev\<in>set (Fetch (telegram_url cfg c m) # evs). \<exists>x. ev = Fetch x)"
      by simp
    then show ?thesis by blast
  next
    case (Throws e)
    with Cons.prems have "tr' = tr @ [Fetch (telegram_url cfg c m)]" by auto
    then show ?thesis by auto
  next
    case Hangs
    with Cons.prems have "tr' = tr @ [Fetch (telegram_url cfg c m)]" by auto
    then show ?thesis by auto
  qed
qed

lemma notify_try_shape:
  "notify_try cfg rt m tr = (r, tr') \<Longrightarrow> \<exists>evs. tr' = tr @ evs \<and> (\<forall>ev\<in>set evs. notifier_internal ev)"
proof (cases "\<not> isEnabled (telegram cfg) \<or> chatIds (telegram cfg) = []")
  case True
  assume "notify_try cfg rt m tr = (r, tr')"
  with True show ?thesis
    by (auto simp: notify_try_def notifier_internal_def split: if_splits)
next
  case False
  assume "notify_try cfg rt m tr = (r, tr')"
  with False have "send_all cfg rt (newMessage m) (chatIds (telegram cfg)) tr = (r, tr')"
    by (simp add: notify_try_def)
  from send_all_shape [OF this] obtain evs where
    a: "tr' = tr @ evs" and b: "\<forall>ev\<in>set evs. \<exists>x. ev = Fetch x"
    by blast
  have "\<forall>ev\<in>set evs. notifier_internal ev"
  proof
    fix ev assume "ev \<in> set evs"
    with b obtain x where "ev = Fetch x" by blast
    then show "notifier_internal ev" by (simp add: notifier_internal_def)
  qed
  with a show ?thesis by blast
qed

lemma notifyTelegram_shape:
  assumes "notifyTelegram cfg rt m tr = (r, tr')"
  shows "\<exists>evs. tr' = tr @ Notify m # evs \<and> (\<forall>ev\<in>set evs. notifier_internal ev)"
proof -
  obtain r0 tr0 where body: "notify_try cfg rt m (tr @ [Notify m]) = (r0, tr0)"
    by (cases "notify_try cfg rt m (tr @ [Notify m])")
  from notify_try_shape [OF body] obtain evs where
    evs: "tr0 = (tr @ [Notify m]) @ evs" "\<forall>ev\<in>set evs. notifier_internal ev"
    by blast
  show ?thesis
  proof (cases r0)
    case (Throws e)
    with assms body have "tr' = tr0 @ [LogError (''An error occurred while sending Telegram notification. '' @ e)]"
      by (simp add: notifyTelegram_def)
    with evs have "tr' = tr @ Notify m # (evs @ [LogError (''An error occurred while sending Telegram notification. '' @ e)])
        \<and> (\<forall>ev\<in>set (evs @ [LogError (''An error occurred while sending Telegram notification. '' @ e)]). notifier_internal ev)"
      by (simp add: notifier_internal_def starts_with_def)
    then show ?thesis by blast
  next
    case (Returns x)
    with assms body have "tr' = tr0" by (simp add: notifyTelegram_def)
    with evs show ?thesis by auto
  next
    case Hangs
    with assms body have "tr' = tr0" by (simp add: notifyTelegram_def)
    with evs show ?thesis by auto
  qed
qed

lemma notifyTelegram_result:
  "notifyTelegram cfg rt m tr = (r, tr') \<Longrightarrow> r = Returns () \<or> r = Hangs"
  by (auto simp: notifyTelegram_def split: prod.splits outcome.splits)

lemma send_all_all_return:
  "(\<forall>k<length ids. fetch rt (tr @ fetches cfg m (take k ids)) (telegram_url cfg (ids ! k) m) = Returns ())
   \<Longrightarrow> send_all cfg rt m ids tr = (Returns (), tr @ fetches cfg m ids)"
proof (induction ids arbitrary: tr)
  case Nil
  then show ?case by (simp add: fetches_def)
next
  case (Cons c ids)
  from Cons.prems have first: "fetch rt tr (telegram_url cfg c m) = Returns ()"
    by (auto simp: fetches_def dest: spec [of _ 0])
  have "\<forall>k<length ids. fetch rt ((tr @ [Fetch (telegram_url cfg c m)]) @ fetches cfg m (take k ids))
           (telegram_url cfg (ids ! k) m) = Returns ()"
  proof (intro allI impI)
    fix k assume "k < length ids"
    with Cons.prems show "fetch rt ((tr @ [Fetch (telegram_url cfg c m)]) @ fetches cfg m (take k ids))
           (telegram_url cfg (ids ! k) m) = Returns ()"
      by (auto simp: fetches_def dest: spec [of _ "Suc k"])
  qed
  from Cons.IH [OF this] first show ?case
    by (simp add: fetches_def)
qed

lemma send_all_first_failure:
  "j < length ids \<Longrightarrow>
   (\<forall>k<j. fetch rt (tr @ fetches cfg m (take k ids)) (telegram_url cfg (ids ! k) m) = Returns ()) \<Longrightarrow>
   fetch rt (tr @ fetches cfg m (take j ids)) (telegram_url cfg (ids ! j) m) = r \<Longrightarrow>
   r \<noteq> Returns () \<Longrightarrow>
   send_all cfg rt m ids tr = (r, tr @ fetches cfg m (take (Suc j) ids))"
proof (induction ids arbitrary: tr j)
  case Nil
  then show ?case by simp
next
  case (Cons c ids)
  show ?case
  proof (cases j)
    case 0
    with Cons.prems show ?thesis
      by (cases r) (auto simp: fetches_def)
  next
    case (Suc j')
    from Cons.prems Suc have first: "fetch rt tr (telegram_url cfg c m) = Returns ()"
      by (auto simp: fetches_def dest: spec [of _ 0])
    have a: "j' < length ids" using Cons.prems Suc by simp
    have b: "\<forall>k<j'. fetch rt ((tr @ [Fetch (telegram_url cfg c m)]) @ fetches cfg m (take k ids))
           (telegram_url cfg (ids ! k) m) = Returns ()"
    proof (intro allI impI)
      fix k assume "k < j'"
      with Cons.prems Suc show "fetch rt ((tr @ [Fetch (telegram_url cfg c m)]) @ fetches cfg m (take k ids))
           (telegram_url cfg (ids ! k) m) = Returns ()"
        by (auto simp: fetches_def dest: spec [of _ "Suc k"])
    qed
    have c: "fetch rt ((tr @ [Fetch (telegram_url cfg c m)]) @ fetches cfg m (take j' ids))
           (telegram_url cfg (ids ! j') m) = r"
      using Cons.prems Suc by (simp add: fetches_def)
    from Cons.IH [OF a b c Cons.prems(4)] first Suc show ?thesis
      by (simp add: fetches_def)
  qed
qed

lemma send_all_settles:
  "(\<forall>tr x. fetch rt tr x \<noteq> Hangs) \<Longrightarrow> fst (send_all cfg rt m ids tr) \<noteq> Hangs"
proof (induction ids arbitrary: tr)
  case Nil
  then show ?case by simp
next
  case (Cons c ids)
  then show ?case
    by (cases "fetch rt tr (telegram_url cfg c m)") (simp_all add: Let_def)
qed

lemma notifyTelegram_returns:
  assumes "settles rt"
  shows "\<exists>tr'. notifyTelegram cfg rt m tr = (Returns (), tr')"
proof -
  from assms have "\<forall>tr x. fetch rt tr x \<noteq> Hangs" by (simp add: settles_def)
  then have "fst (send_all cfg rt (newMessage m) (chatIds (telegram cfg)) (tr @ [Notify m])) \<noteq> Hangs"
    by (rule send_all_settles)
  then have "fst (notify_try cfg rt m (tr @ [Notify m])) \<noteq> Hangs"
    by (simp add: notify_try_def)
  then show ?thesis
    by (auto simp: notifyTelegram_def split: prod.splits outcome.splits)
qed

lemma notifier_internal_not_work: "notifier_internal ev \<Longrightarrow> \<not> is_work ev"
  by (cases ev) (simp_all add: notifier_internal_def is_work_def)

subsection \<open>The call log of one target and of the loop\<close>

lemma backup_steps_shape:
  "backup_steps cfg rt cmd fname fpath tr = (r, tr') \<Longrightarrow>
     \<exists>evs. tr' = tr @ Exec cmd # evs \<and> (\<forall>ev\<in>set evs. is_work ev)"
  by (auto simp: backup_steps_def Let_def is_work_def split: outcome.splits)


lemma backup_steps_settles: "settles rt \<Longrightarrow> fst (backup_steps cfg rt cmd fname fpath tr) \<noteq> Hangs"
  by (auto simp: backup_steps_def Let_def settles_def split: outcome.splits)

lemma dumpCommand_None_iff:
  "dumpCommand t u p = None \<longleftrightarrow> dbType u \<noteq> ''postgresql'' \<and> dbType u \<noteq> ''mongodb'' \<and> dbType u \<noteq> ''mysql''"
  by (simp add: dumpCommand_def)

lemma processTarget_unknown:
  assumes parse: "new_URL rt t = Inr u"
    and unknown: "dumpCommand t u (filepath (target_filename rt tr u)) = None"
    and start: "notifyTelegram cfg rt (startBackupMessage (index + 1) n u) tr = (Returns (), tr1)"
  shows "processTarget cfg rt n index t tr =
     (Returns Return, tr1 @ [Log (startBackupMessage (index + 1) n u), Log (''Unknown database type: '' @ dbType u)])"
  using assms by (simp add: processTarget_def Let_def target_filename_def)

lemma processTarget_supported:
  assumes parse: "new_URL rt t = Inr u"
    and cmd: "dumpCommand t u (filepath (target_filename rt tr u)) = Some cmd"
    and start: "notifyTelegram cfg rt (startBackupMessage (index + 1) n u) tr = (Returns (), tr1)"
  shows "processTarget cfg rt n index t tr =
     (case try_block cfg rt u cmd (target_filename rt tr u) (filepath (target_filename rt tr u))
             (tr1 @ [Log (startBackupMessage (index + 1) n u)]) of
        (Returns x, tr3) \<Rightarrow> (Returns Continue, tr3)
      | (Hangs, tr3) \<Rightarrow> (Hangs, tr3)
      | (Throws error, tr3) \<Rightarrow>
          (case catch_block cfg rt u error tr3 of
             (Returns x, tr4) \<Rightarrow> (Returns Continue, tr4)
           | (Hangs, tr4) \<Rightarrow> (Hangs, tr4)
           | (Throws e, tr4) \<Rightarrow> (Throws e, tr4)))"
  using assms by (simp add: processTarget_def Let_def target_filename_def)

lemma try_block_extends:
  assumes "try_block cfg rt u cmd fname fpath tr = (r, tr')"
  shows "\<exists>evs. tr' = tr @ evs"
proof -
  obtain r1 tr1 where steps: "backup_steps cfg rt cmd fname fpath tr = (r1, tr1)"
    by (cases "backup_steps cfg rt cmd fname fpath tr")
  from backup_steps_shape [OF steps] obtain w where tr1: "tr1 = tr @ Exec cmd # w"
    by blast
  show ?thesis
  proof (cases r1)
    case (Returns x)
    obtain r2 tr2 where told: "notifyTelegram cfg rt (successMessage u) tr1 = (r2, tr2)"
      by (cases "notifyTelegram cfg rt (successMessage u) tr1")
    from notifyTelegram_shape [OF told] obtain evs where "tr2 = tr1 @ Notify (successMessage u) # evs"
      by blast
    with assms steps Returns told tr1 show ?thesis
      by (cases r2) (auto simp: try_block_def)
  next
    case (Throws e)
    with assms steps tr1 show ?thesis by (auto simp: try_block_def)
  next
    case Hangs
    with assms steps tr1 show ?thesis by (auto simp: try_block_def)
  qed
qed

lemma catch_block_extends:
  assumes "catch_block cfg rt u error tr = (r, tr')"
  shows "\<exists>evs. tr' = tr @ evs"
proof -
  obtain r2 tr2 where told: "notifyTelegram cfg rt (failureMessage u error) tr = (r2, tr2)"
    by (cases "notifyTelegram cfg rt (failureMessage u error) tr")
  from notifyTelegram_shape [OF told] obtain evs where "tr2 = tr @ Notify (failureMessage u error) # evs"
    by blast
  with assms told show ?thesis
    by (cases r2) (auto simp: catch_block_def)
qed

lemma processTarget_after_start:
  assumes parse: "new_URL rt t = Inr u"
    and start: "notifyTelegram cfg rt (startBackupMessage (index + 1) n u) tr = (Returns (), tr1)"
  shows "\<exists>more. snd (processTarget cfg rt n index t tr) = tr1 @ Log (startBackupMessage (index + 1) n u) # more"
proof (cases "dumpCommand t u (filepath (target_filename rt tr u))")
  case None
  from processTarget_unknown [OF parse None start] show ?thesis by simp
next
  case (Some cmd)
  let ?tr2 = "tr1 @ [Log (startBackupMessage (index + 1) n u)]"
  let ?f = "target_filename rt tr u"
  note body = processTarget_supported [OF parse Some start]
  obtain r3 tr3 where tried: "try_block cfg rt u cmd ?f (filepath ?f) ?tr2 = (r3, tr3)"
    by (cases "try_block cfg rt u cmd ?f (filepath ?f) ?tr2")
  from try_block_extends [OF tried] obtain evs where tr3: "tr3 = ?tr2 @ evs"
    by blast
  show ?thesis
  proof (cases r3)
    case (Returns x)
    with body tried tr3 show ?thesis by simp
  next
    case Hangs
    with body tried tr3 show ?thesis by simp
  next
    case (Throws error)
    obtain r4 tr4 where caught: "catch_block cfg rt u error tr3 = (r4, tr4)"
      by (cases "catch_block cfg rt u error tr3")
    from catch_block_extends [OF caught] obtain evs' where "tr4 = tr3 @ evs'"
      by blast
    with body tried tr3 Throws caught show ?thesis
      by (cases r4) simp_all
  qed
qed

lemma processTarget_extends: "\<exists>evs. snd (processTarget cfg rt n index t tr) = tr @ evs"
proof (cases "new_URL rt t")
  case (Inl e)
  then show ?thesis by (simp add: processTarget_def)
next
  case (Inr u)
  obtain r1 tr1 where told: "notifyTelegram cfg rt (startBackupMessage (index + 1) n u) tr = (r1, tr1)"
    by (cases "notifyTelegram cfg rt (startBackupMessage (index + 1) n u) tr")
  from notifyTelegram_shape [OF told] obtain evs where tr1: "tr1 = tr @ Notify (startBackupMessage (index + 1) n u) # evs"
    by blast
  show ?thesis
  proof (cases r1)
    case (Returns x)
    with told have "notifyTelegram cfg rt (startBackupMessage (index + 1) n u) tr = (Returns (), tr1)"
      by simp
    from processTarget_after_start [OF Inr this] tr1 show ?thesis by auto
  next
    case (Throws e)
    with Inr told tr1 show ?thesis by (simp add: processTarget_def Let_def)
  next
    case Hangs
    with Inr told tr1 show ?thesis by (simp add: processTarget_def Let_def)
  qed
qed

lemma processTargets_extends: "\<exists>evs. snd (processTargets cfg rt n index ts tr) = tr @ evs"
proof (induction ts arbitrary: index tr)
  case Nil
  then show ?case by simp
next
  case (Cons t ts)
  obtain r tr' where body: "processTarget cfg rt n index t tr = (r, tr')"
    by (cases "processTarget cfg rt n index t tr")
  from processTarget_extends [of cfg rt n index t tr] body obtain evs where tr': "tr' = tr @ evs"
    by auto
  from Cons.IH [of "index + 1" tr'] obtain evs' where
    "snd (processTargets cfg rt n (index + 1) ts tr') = tr' @ evs'"
    by blast
  with body tr' show ?case
    by (cases r) (auto split: loop_exit.splits)
qed

lemma processTargets_head_extends:
  "\<exists>evs. snd (processTargets cfg rt n index (t # ts) tr) = snd (processTarget cfg rt n index t tr) @ evs"
proof -
  obtain r tr' where body: "processTarget cfg rt n index t tr = (r, tr')"
    by (cases "processTarget cfg rt n index t tr")
  from processTargets_extends [of cfg rt n "index + 1" ts tr'] body show ?thesis
    by (cases r) (auto split: loop_exit.splits)
qed

lemma processTargets_append:
  "processTargets cfg rt n i (pre @ rest) tr =
     (case processTargets cfg rt n i pre tr of
        (Returns Continue, tr') \<Rightarrow> processTargets cfg rt n (i + length pre) rest tr'
      | other \<Rightarrow> other)"
proof (induction pre arbitrary: i tr)
  case Nil
  then show ?case by simp
next
  case (Cons t pre)
  show ?case
  proof (cases "processTarget cfg rt n i t tr")
    case (Pair r tr1)
    then show ?thesis
      using Cons.IH [of "i + 1" tr1]
      by (cases r) (auto split: loop_exit.splits prod.splits outcome.splits)
  qed
qed

lemma processBackup_reach:
  assumes dbs: "databases cfg = pre @ t # post"
    and reach: "processTargets cfg rt (length (databases cfg)) 0 pre tr = (Returns Continue, tr0)"
  shows "processBackup cfg rt tr =
     (case processTargets cfg rt (length (databases cfg)) (length pre) (t # post) tr0 of
        (Returns x, tr') \<Rightarrow> (Returns (), tr')
      | (Throws e, tr') \<Rightarrow> (Throws e, tr')
      | (Hangs, tr') \<Rightarrow> (Hangs, tr'))"
proof -
  have "processTargets cfg rt (length (databases cfg)) 0 (pre @ t # post) tr =
      processTargets cfg rt (length (databases cfg)) (length pre) (t # post) tr0"
    using reach by (simp add: processTargets_append)
  then show ?thesis
    using dbs by (simp add: processBackup_def)
qed


lemma processBackup_snd:
  assumes dbs: "databases cfg = pre @ t # post"
    and reach: "processTargets cfg rt (length (databases cfg)) 0 pre tr = (Returns Continue, tr0)"
  shows "snd (processBackup cfg rt tr) = snd (processTargets cfg rt (length (databases cfg)) (length pre) (t # post) tr0)"
  by (simp add: processBackup_reach [OF dbs reach] split: prod.splits outcome.splits)

subsection \<open>Which events are outcome messages\<close>

lemma start_is_no_outcome:
  "\<not> is_success_event u (Notify (startBackupMessage i n v))"
  "\<not> is_success_event u (Log (startBackupMessage i n v))"
  "\<not> is_failure_event u (Notify (startBackupMessage i n v))"
  "\<not> is_failure_event u (Log (startBackupMessage i n v))"
  by (simp_all add: is_success_event_def is_failure_event_def startBackupMessage_def successMessage_def
      failurePrefix_def lf_def check_mark_def ballot_x_def starts_with_Cons)

lemma internal_is_no_outcome:
  assumes "notifier_internal ev"
  shows "\<not> is_success_event u ev" and "\<not> is_failure_event u ev"
proof -
  show "\<not> is_success_event u ev"
    using assms
    by (cases ev) (auto simp: notifier_internal_def is_success_event_def successMessage_def check_mark_def)
  show "\<not> is_failure_event u ev"
  proof (cases ev)
    case (LogError x)
    with assms have "starts_with ''An error occurred while sending Telegram notification. '' x"
      by (simp add: notifier_internal_def)
    then obtain r where "x = CHR ''A'' # r"
      using starts_with_head by blast
    with LogError show ?thesis
      by (simp add: is_failure_event_def failurePrefix_def ballot_x_def starts_with_Cons)
  qed (use assms in \<open>simp_all add: notifier_internal_def is_failure_event_def\<close>)
qed

lemma work_is_no_outcome:
  assumes "is_work ev"
  shows "\<not> is_success_event u ev" and "\<not> is_failure_event u ev"
  using assms by (cases ev; simp add: is_work_def is_success_event_def is_failure_event_def)+

lemma success_events:
  "is_success_event u (Notify (successMessage u))"
  "is_success_event u (Log (successMessage u))"
  "\<not> is_failure_event u (Notify (successMessage u))"
  "\<not> is_failure_event u (Log (successMessage u))"
  by (simp_all add: is_success_event_def is_failure_event_def successMessage_def failurePrefix_def
      check_mark_def ballot_x_def starts_with_Cons)

lemma failure_events:
  "is_failure_event u (Notify (failureMessage u e))"
  "is_failure_event u (LogError (failureMessage u e))"
  "\<not> is_success_event u (Notify (failureMessage u e))"
  "\<not> is_success_event u (LogError (failureMessage u e))"
  by (simp_all add: is_success_event_def is_failure_event_def failureMessage_def starts_with_append)
    (simp add: successMessage_def failurePrefix_def check_mark_def ballot_x_def)

lemmas example_defs =
  calm_runtime_def failing_dump_runtime_def example_new_URL_def silent_config_def chatty_config_def
  pg_url_def dbType_def dbName_def dbHostname_def slice_def substring_def
  notifyTelegram_def notify_try_def startBackupMessage_def String_nat.simps digit_def
  target_filename_def filename_def filepath_def timestamp_example dumpCommand_def

subsection \<open>The claims\<close>

text \<open>
  C1.  When the loop reaches an entry whose scheme is none of \<open>postgresql\<close>,
  \<open>mongodb\<close>, \<open>mysql\<close> (the entries before it were processed and the loop went on,
  the progress notification came back), the cycle logs \<open>Unknown database type\<close> and
  returns: the call log ends with that line, whatever follows the entry in the list, and
  from the entry on it holds no dump, compress, read or upload call.
\<close>

theorem unknown_engine_ends_cycle:
  assumes dbs: "databases cfg = pre @ t # post"
    and reach: "processTargets cfg rt (length (databases cfg)) 0 pre tr = (Returns Continue, tr0)"
    and parse: "new_URL rt t = Inr u"
    and unknown: "dbType u \<noteq> ''postgresql''" "dbType u \<noteq> ''mongodb''" "dbType u \<noteq> ''mysql''"
    and start: "notifyTelegram cfg rt (startBackupMessage (length pre + 1) (length (databases cfg)) u) tr0 = (Returns (), tr1)"
  shows "processBackup cfg rt tr =
           (Returns (), tr1 @ [Log (startBackupMessage (length pre + 1) (length (databases cfg)) u),
                               Log (''Unknown database type: '' @ dbType u)])
         \<and> filter is_work (drop (length tr0) (snd (processBackup cfg rt tr))) = []"
proof -
  let ?M = "startBackupMessage (length pre + 1) (length (databases cfg)) u"
  have none: "dumpCommand t u (filepath (target_filename rt tr0 u)) = None"
    using unknown by (simp add: dumpCommand_None_iff)
  have body: "processTarget cfg rt (length (databases cfg)) (length pre) t tr0 =
      (Returns Return, tr1 @ [Log ?M, Log (''Unknown database type: '' @ dbType u)])"
    by (rule processTarget_unknown [OF parse none start])
  have run: "processBackup cfg rt tr = (Returns (), tr1 @ [Log ?M, Log (''Unknown database type: '' @ dbType u)])"
    by (simp add: processBackup_reach [OF dbs reach] body)
  from notifyTelegram_shape [OF start] obtain evs where
    tr1: "tr1 = tr0 @ Notify ?M # evs" and internal: "\<forall>ev\<in>set evs. notifier_internal ev"
    by blast
  have "filter is_work evs = []"
    using internal by (intro filter_none) (auto dest: notifier_internal_not_work)
  then have "filter is_work (drop (length tr0) (tr1 @ [Log ?M, Log (''Unknown database type: '' @ dbType u)])) = []"
    by (simp add: tr1 is_work_def)
  with run show ?thesis by simp
qed

text \<open>
  The list of the specification: an \<open>ftp\<close> entry followed by a \<open>postgresql\<close> one.
\<close>

theorem unknown_engine_ends_cycle_witness:
  "processBackup (silent_config\<lparr>databases := [''ftp://h/db'', ''postgresql://u:p@h:5432/db'']\<rparr>) calm_runtime []
     = (Returns (), [Notify (lf @ ''[1/2] ftp/db Backup in progress...''),
          Log ''Telegram notifications are disabled. Define TELEGRAM_TOKEN and TELEGRAM_CHAT_IDS to enable.'',
          Log (lf @ ''[1/2] ftp/db Backup in progress...''),
          Log ''Unknown database type: ftp''])"
  using unknown_engine_ends_cycle [of "silent_config\<lparr>databases := [''ftp://h/db'', ''postgresql://u:p@h:5432/db'']\<rparr>"
      "[]" "''ftp://h/db''" "[''postgresql://u:p@h:5432/db'']" calm_runtime "[]" "[]"
      ftp_url
      "[Notify (lf @ ''[1/2] ftp/db Backup in progress...''),
          Log ''Telegram notifications are disabled. Define TELEGRAM_TOKEN and TELEGRAM_CHAT_IDS to enable.'']"]
  by (simp add: calm_runtime_def example_new_URL_def ftp_url_def silent_config_def dbType_def dbName_def slice_def substring_def
      notifyTelegram_def notify_try_def startBackupMessage_def String_nat.simps digit_def lf_def)



text \<open>
  C3, as stated, fails: with two destinations and no network the first \<open>fetch\<close>
  rejects, the \<open>catch\<close> around the whole loop takes over, and the second destination
  is never tried.  One send is attempted, not two.
\<close>

theorem one_failed_send_stops_the_rest:
  "isEnabled (telegram chatty_config)
   \<and> length (chatIds (telegram chatty_config)) = 2
   \<and> length (filter is_send (snd (notifyTelegram chatty_config offline_runtime ''hi'' []))) = 1
   \<and> length (filter is_send (snd (notifyTelegram chatty_config offline_runtime ''hi'' [])))
         \<noteq> length (chatIds (telegram chatty_config))"
  by (simp add: chatty_config_def silent_config_def offline_runtime_def calm_runtime_def
      notifyTelegram_def notify_try_def is_send_def)

text \<open>
  C3, amended.  With notifications enabled, \<open>notifyTelegram\<close> sends to the
  destinations in the order of the list and stops at the first send that throws: when
  every send returns, the sends are exactly one per destination; when the send to
  destination \<open>j\<close> is the first to throw, the sends are exactly those to destinations
  \<open>0\<close> to \<open>j\<close>, followed by one \<open>console.error\<close> line, and no later destination is
  tried.
\<close>

theorem notifyTelegram_sends_until_first_failure:
  assumes en: "isEnabled (telegram cfg)"
    and ids: "chatIds (telegram cfg) = ids"
  shows "((\<forall>k<length ids. fetch rt (tr @ Notify message # fetches cfg (newMessage message) (take k ids))
                (telegram_url cfg (ids ! k) (newMessage message)) = Returns ()) \<longrightarrow>
            filter is_send (drop (length tr) (snd (notifyTelegram cfg rt message tr)))
              = fetches cfg (newMessage message) ids)
       \<and> (j < length ids
            \<and> (\<forall>k<j. fetch rt (tr @ Notify message # fetches cfg (newMessage message) (take k ids))
                  (telegram_url cfg (ids ! k) (newMessage message)) = Returns ())
            \<and> fetch rt (tr @ Notify message # fetches cfg (newMessage message) (take j ids))
                  (telegram_url cfg (ids ! j) (newMessage message)) = Throws e \<longrightarrow>
            notifyTelegram cfg rt message tr =
              (Returns (), tr @ Notify message # fetches cfg (newMessage message) (take (Suc j) ids)
                 @ [LogError (''An error occurred while sending Telegram notification. '' @ e)]))"
proof (intro conjI impI)
  let ?m = "newMessage message"
  assume all: "\<forall>k<length ids. fetch rt (tr @ Notify message # fetches cfg ?m (take k ids))
                (telegram_url cfg (ids ! k) ?m) = Returns ()"
  have sends: "filter is_send (fetches cfg ?m ids) = fetches cfg ?m ids"
    by (induction ids) (simp_all add: fetches_def is_send_def)
  show "filter is_send (drop (length tr) (snd (notifyTelegram cfg rt message tr))) = fetches cfg ?m ids"
  proof (cases "ids = []")
    case True
    with en ids show ?thesis
      by (simp add: notifyTelegram_def notify_try_def fetches_def is_send_def)
  next
    case False
    from all have "send_all cfg rt ?m ids (tr @ [Notify message]) = (Returns (), (tr @ [Notify message]) @ fetches cfg ?m ids)"
      by (intro send_all_all_return) simp
    with en ids False show ?thesis
      by (simp add: notifyTelegram_def notify_try_def sends is_send_def)
  qed
next
  let ?m = "newMessage message"
  assume fail: "j < length ids
            \<and> (\<forall>k<j. fetch rt (tr @ Notify message # fetches cfg ?m (take k ids))
                  (telegram_url cfg (ids ! k) ?m) = Returns ())
            \<and> fetch rt (tr @ Notify message # fetches cfg ?m (take j ids))
                  (telegram_url cfg (ids ! j) ?m) = Throws e"
  then have ne: "ids \<noteq> []" by auto
  from fail have "send_all cfg rt ?m ids (tr @ [Notify message]) =
      (Throws e, (tr @ [Notify message]) @ fetches cfg ?m (take (Suc j) ids))"
    by (intro send_all_first_failure) simp_all
  with en ids ne show "notifyTelegram cfg rt message tr =
              (Returns (), tr @ Notify message # fetches cfg ?m (take (Suc j) ids)
                 @ [LogError (''An error occurred while sending Telegram notification. '' @ e)])"
    by (simp add: notifyTelegram_def notify_try_def)
qed

theorem notifyTelegram_sends_until_first_failure_witness:
  "isEnabled (telegram chatty_config) \<and> chatIds (telegram chatty_config) = [''1'', ''2'']
   \<and> filter is_send (drop (length ([]::event list)) (snd (notifyTelegram chatty_config calm_runtime ''hi'' [])))
       = fetches chatty_config (newMessage ''hi'') [''1'', ''2'']
   \<and> notifyTelegram chatty_config offline_runtime ''hi'' [] =
       (Returns (), [Notify ''hi'', Fetch ''https://api.telegram.org/botT/sendMessage?chat_id=1&text=[eGesto Backup Database] hi'',
          LogError ''An error occurred while sending Telegram notification. TypeError: fetch failed''])"
  using notifyTelegram_sends_until_first_failure [of chatty_config "[''1'', ''2'']" calm_runtime "[]" "''hi''" 0 "''x''"]
    notifyTelegram_sends_until_first_failure [of chatty_config "[''1'', ''2'']" offline_runtime "[]" "''hi''" 0 "''TypeError: fetch failed''"]
  by (simp add: chatty_config_def silent_config_def offline_runtime_def calm_runtime_def fetches_def telegram_url_def
      newMessage_def)

text \<open>
  C4.  Without a token (\<open>isEnabled\<close> is false), or with a token and no destination,
  \<open>notifyTelegram\<close> logs the reason, makes no network call and returns; and for every
  configuration, platform and message it never throws.
\<close>

theorem notifyTelegram_off_is_quiet:
  "(\<not> isEnabled (telegram cfg) \<longrightarrow>
      notifyTelegram cfg rt message tr =
        (Returns (), tr @ [Notify message,
           Log ''Telegram notifications are disabled. Define TELEGRAM_TOKEN and TELEGRAM_CHAT_IDS to enable.'']))
   \<and> (isEnabled (telegram cfg) \<and> chatIds (telegram cfg) = [] \<longrightarrow>
      notifyTelegram cfg rt message tr =
        (Returns (), tr @ [Notify message,
           Log ''No chat IDs defined for Telegram notifications. Define TELEGRAM_CHAT_IDS to enable.'']))
   \<and> (\<forall>e. fst (notifyTelegram cfg rt message tr) \<noteq> Throws e)"
  by (simp add: notifyTelegram_def notify_try_def split: prod.splits outcome.splits)

theorem notifyTelegram_off_is_quiet_witness:
  "\<not> isEnabled (telegram silent_config)
   \<and> notifyTelegram silent_config offline_runtime ''hi'' [] =
        (Returns (), [Notify ''hi'',
           Log ''Telegram notifications are disabled. Define TELEGRAM_TOKEN and TELEGRAM_CHAT_IDS to enable.''])
   \<and> isEnabled (telegram (chatty_config\<lparr>telegram := (telegram chatty_config)\<lparr>chatIds := []\<rparr>\<rparr>))
   \<and> notifyTelegram (chatty_config\<lparr>telegram := (telegram chatty_config)\<lparr>chatIds := []\<rparr>\<rparr>) offline_runtime ''hi'' [] =
        (Returns (), [Notify ''hi'',
           Log ''No chat IDs defined for Telegram notifications. Define TELEGRAM_CHAT_IDS to enable.''])
   \<and> fst (notifyTelegram chatty_config offline_runtime ''hi'' []) \<noteq> Throws ''TypeError: fetch failed''"
  using notifyTelegram_off_is_quiet [of silent_config offline_runtime "''hi''" "[]"]
    notifyTelegram_off_is_quiet [of "chatty_config\<lparr>telegram := (telegram chatty_config)\<lparr>chatIds := []\<rparr>\<rparr>" offline_runtime "''hi''" "[]"]
    notifyTelegram_off_is_quiet [of chatty_config offline_runtime "''hi''" "[]"]
  by (simp add: silent_config_def chatty_config_def)

text \<open>
  C5.  The artifact's name is a function of engine, timestamp, database name and host,
  of the form \<open>backup-{engine}-{yyyy-MM-dd_HH:mm:ss}-{dbName}-{host}.tar.gz\<close>: for a
  date with a four-digit year and calendar fields in their ranges, the timestamp is the
  nineteen characters below, every field but the year padded with a zero to two digits.
\<close>

theorem filename_format:
  assumes year: "1000 \<le> getFullYear d" "getFullYear d \<le> 9999"
    and month: "getMonth d \<le> 11"
    and day: "1 \<le> getDate d" "getDate d \<le> 31"
    and hours: "getHours d \<le> 23"
    and minutes: "getMinutes d \<le> 59"
    and seconds: "getSeconds d \<le> 59"
    and y: "y = nat (getFullYear d)"
  shows "filename ty (timestamp d) name host =
           ''backup-'' @ ty @ ''-''
           @ [digit (y div 1000), digit (y div 100), digit (y div 10), digit y, CHR ''-'',
              digit ((getMonth d + 1) div 10), digit (getMonth d + 1), CHR ''-'',
              digit (getDate d div 10), digit (getDate d), CHR ''_'',
              digit (getHours d div 10), digit (getHours d), CHR '':'',
              digit (getMinutes d div 10), digit (getMinutes d), CHR '':'',
              digit (getSeconds d div 10), digit (getSeconds d)]
           @ ''-'' @ name @ ''-'' @ host @ ''.tar.gz''
         \<and> length (timestamp d) = 19"
proof -
  have yyyy: "String_int (getFullYear d) = [digit (y div 1000), digit (y div 100), digit (y div 10), digit y]"
    using year y by (simp add: String_int_def String_nat_4)
  have mm: "padStart 2 CHR ''0'' (String_nat (getMonth d + 1)) = [digit ((getMonth d + 1) div 10), digit (getMonth d + 1)]"
    using month by (intro pad2) simp
  have dd: "padStart 2 CHR ''0'' (String_nat (getDate d)) = [digit (getDate d div 10), digit (getDate d)]"
    using day by (intro pad2) simp
  have hh: "padStart 2 CHR ''0'' (String_nat (getHours d)) = [digit (getHours d div 10), digit (getHours d)]"
    using hours by (intro pad2) simp
  have mi: "padStart 2 CHR ''0'' (String_nat (getMinutes d)) = [digit (getMinutes d div 10), digit (getMinutes d)]"
    using minutes by (intro pad2) simp
  have ss: "padStart 2 CHR ''0'' (String_nat (getSeconds d)) = [digit (getSeconds d div 10), digit (getSeconds d)]"
    using seconds by (intro pad2) simp
  have ts: "timestamp d =
      [digit (y div 1000), digit (y div 100), digit (y div 10), digit y, CHR ''-'',
       digit ((getMonth d + 1) div 10), digit (getMonth d + 1), CHR ''-'',
       digit (getDate d div 10), digit (getDate d), CHR ''_'',
       digit (getHours d div 10), digit (getHours d), CHR '':'',
       digit (getMinutes d div 10), digit (getMinutes d), CHR '':'',
       digit (getSeconds d div 10), digit (getSeconds d)]"
    unfolding timestamp_def Let_def yyyy mm dd hh mi ss by simp
  show ?thesis
    unfolding filename_def ts by simp
qed

theorem filename_format_witness:
  "filename ''mysql'' (timestamp example_date) ''shop'' ''m'' = ''backup-mysql-2026-11-03_13:04:05-shop-m.tar.gz''
   \<and> length (timestamp example_date) = 19"
  using filename_format [of example_date 2026 "''mysql''" "''shop''" "''m''"]
  by (simp add: example_date_def digit_def)

text \<open>
  C6, as stated, fails: \<open>mysql:foo\<close> is a connection string of a supported scheme
  whose path \<open>foo\<close> has no leading slash; \<open>substring(1)\<close> drops its first character
  all the same and the database name comes out as \<open>oo\<close>.
\<close>

theorem opaque_path_loses_first_character:
  "new_URL calm_runtime ''mysql:foo'' = Inr opaque_url
   \<and> supported_scheme opaque_url
   \<and> extracted opaque_url \<noteq> uri_decomposition opaque_url
   \<and> dbName opaque_url = ''oo''
   \<and> uri_path_without_leading_slash opaque_url = ''foo''"
  by (simp add: calm_runtime_def example_new_URL_def supported_scheme_def opaque_url_def extracted_def
      uri_decomposition_def dbName_def substring_def uri_path_without_leading_slash_def)

text \<open>
  C6, amended.  For every connection string of the three supported schemes whose path
  is empty or starts with a slash (the hierarchical form \<open>scheme://authority/path\<close>),
  the extracted engine, database name, host, port, user and password are the scheme
  without its trailing colon, the path without its leading slash, the host name, the
  port and the two parts of the user information.
\<close>

theorem extraction_matches_decomposition:
  assumes "supported_scheme u"
    and "pathname u = [] \<or> hd (pathname u) = CHR ''/''"
  shows "extracted u = uri_decomposition u"
proof -
  from assms(1) have "dbType u = uri_scheme u"
    by (auto simp: supported_scheme_def dbType_def uri_scheme_def slice_0_neg1)
  moreover from assms(2) have "dbName u = uri_path_without_leading_slash u"
    by (cases "pathname u") (auto simp: dbName_def substring_def uri_path_without_leading_slash_def)
  ultimately show ?thesis
    by (simp add: extracted_def uri_decomposition_def dbHostname_def dbPort_def dbUser_def dbPassword_def)
qed

theorem extraction_matches_decomposition_witness:
  "supported_scheme mysql_url \<and> hd (pathname mysql_url) = CHR ''/''
   \<and> extracted mysql_url = (''mysql'', ''shop'', ''m'', ''3306'', ''root'', ''pw'')
   \<and> uri_decomposition mysql_url = (''mysql'', ''shop'', ''m'', ''3306'', ''root'', ''pw'')"
  using extraction_matches_decomposition [of mysql_url]
  by (simp add: supported_scheme_def mysql_url_def uri_decomposition_def uri_scheme_def
      uri_path_without_leading_slash_def)

text \<open>
  C7.  With an empty list of targets the cycle logs the one line
  \<open>No databases defined.\<close> and returns: no dump, no upload, no notification.
\<close>

theorem empty_list_one_log_line:
  "databases cfg = [] \<Longrightarrow> processBackup cfg rt tr = (Returns (), tr @ [Log ''No databases defined.''])"
  by (simp add: processBackup_def)

theorem empty_list_one_log_line_witness:
  "databases silent_config = [] \<and> processBackup silent_config calm_runtime [] = (Returns (), [Log ''No databases defined.''])"
  using empty_list_one_log_line [of silent_config calm_runtime "[]"]
  by (simp add: silent_config_def)

text \<open>
  C8.  For the target at position \<open>i\<close> of \<open>n\<close> (the entries before it were processed
  and the loop went on), the call log from there on starts with the call of the notifier
  on the message \<open>[i/n] engine/name Backup in progress...\<close>; the notifier's own calls
  follow, none of them backup work; whatever comes after them starts with the same
  message on \<open>console.log\<close>, and when the notifier comes back there is such a rest.  So
  every dump, compress, read and upload call of the target stands after both.
\<close>

theorem progress_message_precedes_work:
  assumes dbs: "databases cfg = pre @ t # post"
    and reach: "processTargets cfg rt (length (databases cfg)) 0 pre tr = (Returns Continue, tr0)"
    and parse: "new_URL rt t = Inr u"
    and M: "M = lf @ ''['' @ String_nat (length pre + 1) @ ''/'' @ String_nat (length (databases cfg)) @ ''] ''
                 @ dbType u @ ''/'' @ dbName u @ '' Backup in progress...''"
  shows "\<exists>evs rest. snd (processBackup cfg rt tr) = tr0 @ Notify M # evs @ rest
           \<and> filter is_work evs = []
           \<and> (rest = [] \<or> hd rest = Log M)
           \<and> (fst (notifyTelegram cfg rt M tr0) = Returns () \<longrightarrow> rest \<noteq> [])"
proof -
  let ?n = "length (databases cfg)"
  have M': "M = startBackupMessage (length pre + 1) ?n u"
    by (simp add: M startBackupMessage_def)
  obtain r1 tr1 where told: "notifyTelegram cfg rt M tr0 = (r1, tr1)"
    by (cases "notifyTelegram cfg rt M tr0")
  from notifyTelegram_shape [OF told] obtain evs where
    tr1: "tr1 = tr0 @ Notify M # evs" and internal: "\<forall>ev\<in>set evs. notifier_internal ev"
    by blast
  have quiet: "filter is_work evs = []"
    using internal by (intro filter_none) (auto dest: notifier_internal_not_work)
  from processTargets_head_extends [of cfg rt ?n "length pre" t post tr0] obtain later where
    whole: "snd (processTargets cfg rt ?n (length pre) (t # post) tr0) =
              snd (processTarget cfg rt ?n (length pre) t tr0) @ later"
    by blast
  note run = processBackup_snd [OF dbs reach]
  from notifyTelegram_result [OF told] show ?thesis
  proof
    assume r1: "r1 = Returns ()"
    with told M' have "notifyTelegram cfg rt (startBackupMessage (length pre + 1) ?n u) tr0 = (Returns (), tr1)"
      by simp
    from processTarget_after_start [OF parse this] obtain more where
      "snd (processTarget cfg rt ?n (length pre) t tr0) = tr1 @ Log M # more"
      using M' by auto
    with run whole tr1 have "snd (processBackup cfg rt tr) = tr0 @ Notify M # evs @ (Log M # more @ later)"
      by simp
    with quiet show ?thesis by (intro exI [of _ evs] exI [of _ "Log M # more @ later"]) simp
  next
    assume r1: "r1 = Hangs"
    with told parse M' have "processTarget cfg rt ?n (length pre) t tr0 = (Hangs, tr1)"
      by (simp add: processTarget_def Let_def)
    then have "snd (processBackup cfg rt tr) = tr0 @ Notify M # evs @ []"
      using run tr1 by simp
    with quiet told r1 show ?thesis by (intro exI [of _ evs] exI [of _ "[]"]) simp
  qed
qed

theorem progress_message_precedes_work_witness:
  "\<exists>evs rest. snd (processBackup (chatty_config\<lparr>databases := [''postgresql://u:p@h:5432/db'']\<rparr>) calm_runtime [])
        = [] @ Notify (lf @ ''[1/1] postgresql/db Backup in progress...'') # evs @ rest
      \<and> filter is_work evs = []
      \<and> hd rest = Log (lf @ ''[1/1] postgresql/db Backup in progress...'')
      \<and> rest \<noteq> []"
proof -
  let ?cfg = "chatty_config\<lparr>databases := [''postgresql://u:p@h:5432/db'']\<rparr>"
  let ?M = "lf @ ''[1/1] postgresql/db Backup in progress...''"
  have dbs: "databases ?cfg = [] @ ''postgresql://u:p@h:5432/db'' # []"
    by simp
  have reach: "processTargets ?cfg calm_runtime (length (databases ?cfg)) 0 [] [] = (Returns Continue, [])"
    by simp
  have parse: "new_URL calm_runtime ''postgresql://u:p@h:5432/db'' = Inr pg_url"
    by (simp add: example_defs)
  have M: "?M = lf @ ''['' @ String_nat (length ([]::string list) + 1) @ ''/'' @ String_nat (length (databases ?cfg)) @ ''] ''
                 @ dbType pg_url @ ''/'' @ dbName pg_url @ '' Backup in progress...''"
    by (simp add: example_defs)
  have returns: "fst (notifyTelegram ?cfg calm_runtime ?M []) = Returns ()"
    by (simp add: example_defs)
  from progress_message_precedes_work [OF dbs reach parse M] returns
  show ?thesis by fastforce
qed

text \<open>
  C9.  When the loop reaches an entry that \<open>new URL\<close> rejects, the exception leaves
  \<open>processBackup\<close>: the promise rejects with it and the call log is the one the earlier
  entries left, so nothing is notified or logged for the entry and no later entry is
  processed.
\<close>

theorem unparseable_target_rejects_cycle:
  assumes dbs: "databases cfg = pre @ t # post"
    and reach: "processTargets cfg rt (length (databases cfg)) 0 pre tr = (Returns Continue, tr0)"
    and parse: "new_URL rt t = Inl e"
  shows "processBackup cfg rt tr = (Throws e, tr0)"
  using parse by (simp add: processBackup_reach [OF dbs reach] processTarget_def)

theorem unparseable_target_rejects_cycle_witness:
  "processBackup (silent_config\<lparr>databases := [''not a url'', ''postgresql://u:p@h:5432/db'']\<rparr>) calm_runtime []
     = (Throws ''TypeError: Invalid URL'', [])"
  using unparseable_target_rejects_cycle [of "silent_config\<lparr>databases := [''not a url'', ''postgresql://u:p@h:5432/db'']\<rparr>"
      "[]" "''not a url''" "[''postgresql://u:p@h:5432/db'']" calm_runtime "[]" "[]" "''TypeError: Invalid URL''"]
  by (simp add: calm_runtime_def example_new_URL_def)

text \<open>
  C10.  For a target with a supported engine, on a platform whose calls all come back,
  the loop pass ends normally and its part of the call log holds exactly one outcome
  message: either the success message, once to the notifier and once to
  \<open>console.log\<close>, and no failure message; or the failure message for one error, once to
  the notifier and once to \<open>console.error\<close>, and no success message.
\<close>

theorem exactly_one_outcome_per_target:
  assumes parse: "new_URL rt t = Inr u"
    and supported: "dbType u = ''postgresql'' \<or> dbType u = ''mongodb'' \<or> dbType u = ''mysql''"
    and settles: "settles rt"
  shows "\<exists>tr'. processTarget cfg rt n index t tr = (Returns Continue, tr')
           \<and> ((filter (is_success_event u) (drop (length tr) tr') = [Notify (successMessage u), Log (successMessage u)]
                 \<and> filter (is_failure_event u) (drop (length tr) tr') = [])
              \<or> (\<exists>e. filter (is_failure_event u) (drop (length tr) tr')
                        = [Notify (failureMessage u e), LogError (failureMessage u e)]
                 \<and> filter (is_success_event u) (drop (length tr) tr') = []))"
proof -
  let ?M = "startBackupMessage (index + 1) n u"
  let ?f = "target_filename rt tr u"
  from notifyTelegram_returns [OF settles] obtain tr1 where
    start: "notifyTelegram cfg rt ?M tr = (Returns (), tr1)"
    by blast
  from notifyTelegram_shape [OF start] obtain evs1 where
    tr1: "tr1 = tr @ Notify ?M # evs1" and int1: "\<forall>ev\<in>set evs1. notifier_internal ev"
    by blast
  from supported obtain cmd where cmd: "dumpCommand t u (filepath ?f) = Some cmd"
    by (auto simp: dumpCommand_def)
  note body = processTarget_supported [OF parse cmd start]
  obtain r2 tr2 where steps: "backup_steps cfg rt cmd ?f (filepath ?f) (tr1 @ [Log ?M]) = (r2, tr2)"
    by (cases "backup_steps cfg rt cmd ?f (filepath ?f) (tr1 @ [Log ?M])")
  from backup_steps_shape [OF steps] obtain w where
    tr2: "tr2 = (tr1 @ [Log ?M]) @ Exec cmd # w" and work: "\<forall>ev\<in>set w. is_work ev"
    by blast
  have s1: "filter (is_success_event u) evs1 = []" and f1: "filter (is_failure_event u) evs1 = []"
    using int1 by (auto intro!: filter_none dest: internal_is_no_outcome)
  have sw: "filter (is_success_event u) w = []" and fw: "filter (is_failure_event u) w = []"
    using work by (auto intro!: filter_none dest: work_is_no_outcome)
  have sx: "\<not> is_success_event u (Exec cmd)" and fx: "\<not> is_failure_event u (Exec cmd)"
    by (simp_all add: is_success_event_def is_failure_event_def)
  from backup_steps_settles [OF settles, of cfg cmd ?f "filepath ?f" "tr1 @ [Log ?M]"] steps
  have "r2 \<noteq> Hangs" by simp
  then consider (ok) "r2 = Returns ()" | (thrown) e where "r2 = Throws e"
    by (cases r2) auto
  then show ?thesis
  proof cases
    case ok
    from notifyTelegram_returns [OF settles] obtain tr3 where
      told: "notifyTelegram cfg rt (successMessage u) tr2 = (Returns (), tr3)"
      by blast
    from notifyTelegram_shape [OF told] obtain evs3 where
      tr3: "tr3 = tr2 @ Notify (successMessage u) # evs3" and int3: "\<forall>ev\<in>set evs3. notifier_internal ev"
      by blast
    have s3: "filter (is_success_event u) evs3 = []" and f3: "filter (is_failure_event u) evs3 = []"
      using int3 by (auto intro!: filter_none dest: internal_is_no_outcome)
    have run: "processTarget cfg rt n index t tr = (Returns Continue, tr3 @ [Log (successMessage u)])"
      using steps ok told by (simp add: body try_block_def)
    have new: "drop (length tr) (tr3 @ [Log (successMessage u)]) =
        Notify ?M # evs1 @ Log ?M # Exec cmd # w @ Notify (successMessage u) # evs3 @ [Log (successMessage u)]"
      by (simp add: tr3 tr2 tr1)
    have "filter (is_success_event u) (drop (length tr) (tr3 @ [Log (successMessage u)]))
            = [Notify (successMessage u), Log (successMessage u)]"
      unfolding new by (simp add: s1 sw s3 sx start_is_no_outcome success_events)
    moreover have "filter (is_failure_event u) (drop (length tr) (tr3 @ [Log (successMessage u)])) = []"
      unfolding new by (simp add: f1 fw f3 fx start_is_no_outcome success_events)
    ultimately show ?thesis using run by simp
  next
    case thrown
    from notifyTelegram_returns [OF settles] obtain tr3 where
      told: "notifyTelegram cfg rt (failureMessage u e) tr2 = (Returns (), tr3)"
      by blast
    from notifyTelegram_shape [OF told] obtain evs3 where
      tr3: "tr3 = tr2 @ Notify (failureMessage u e) # evs3" and int3: "\<forall>ev\<in>set evs3. notifier_internal ev"
      by blast
    have s3: "filter (is_success_event u) evs3 = []" and f3: "filter (is_failure_event u) evs3 = []"
      using int3 by (auto intro!: filter_none dest: internal_is_no_outcome)
    have run: "processTarget cfg rt n index t tr = (Returns Continue, tr3 @ [LogError (failureMessage u e)])"
      using steps thrown told by (simp add: body try_block_def catch_block_def)
    have new: "drop (length tr) (tr3 @ [LogError (failureMessage u e)]) =
        Notify ?M # evs1 @ Log ?M # Exec cmd # w @ Notify (failureMessage u e) # evs3 @ [LogError (failureMessage u e)]"
      by (simp add: tr3 tr2 tr1)
    have "filter (is_failure_event u) (drop (length tr) (tr3 @ [LogError (failureMessage u e)]))
            = [Notify (failureMessage u e), LogError (failureMessage u e)]"
      unfolding new by (simp add: f1 fw f3 fx start_is_no_outcome failure_events)
    moreover have "filter (is_success_event u) (drop (length tr) (tr3 @ [LogError (failureMessage u e)])) = []"
      unfolding new by (simp add: s1 sw s3 sx start_is_no_outcome failure_events)
    ultimately show ?thesis using run by auto
  qed
qed

theorem exactly_one_outcome_per_target_witness:
  "new_URL calm_runtime ''postgresql://u:p@h:5432/db'' = Inr pg_url
   \<and> dbType pg_url = ''postgresql''
   \<and> settles calm_runtime
   \<and> (\<exists>tr'. processTarget chatty_config calm_runtime 1 0 ''postgresql://u:p@h:5432/db'' [] = (Returns Continue, tr')
           \<and> ((filter (is_success_event pg_url) (drop (length ([]::event list)) tr')
                   = [Notify (successMessage pg_url), Log (successMessage pg_url)]
                 \<and> filter (is_failure_event pg_url) (drop (length ([]::event list)) tr') = [])
              \<or> (\<exists>e. filter (is_failure_event pg_url) (drop (length ([]::event list)) tr')
                        = [Notify (failureMessage pg_url e), LogError (failureMessage pg_url e)]
                 \<and> filter (is_success_event pg_url) (drop (length ([]::event list)) tr') = [])))"
proof -
  have parse: "new_URL calm_runtime ''postgresql://u:p@h:5432/db'' = Inr pg_url"
    by (simp add: example_defs)
  have engine: "dbType pg_url = ''postgresql''"
    by (simp add: example_defs)
  then have supported: "dbType pg_url = ''postgresql'' \<or> dbType pg_url = ''mongodb'' \<or> dbType pg_url = ''mysql''"
    by simp
  have settles: "settles calm_runtime"
    by (simp add: settles_def calm_runtime_def)
  from exactly_one_outcome_per_target [OF parse supported settles, of chatty_config 1 0 "[]"] parse engine settles
  show ?thesis by blast
qed

end
